theory Spec2Isabelle
  imports Complex_Main
begin

section \<open>Errors\<close>

text \<open>
  Every exception the modelled Python code can raise is a value. The argument of
  \<open>AssertionError\<close> is the message of the failing \<^verbatim>\<open>assert\<close>; the argument of the
  name errors is the name that could not be resolved. \<open>Overflow\<close> is the error that
  \<^verbatim>\<open>torch\<close> raises when a Python integer written to a tensor does not fit the element
  type of the tensor (its class depends on the version of \<^verbatim>\<open>torch\<close>).
\<close>

datatype py_error =
    IndexError
  | AssertionError string
  | ValueError
  | NameError string
  | UnboundLocalError string
  | AttributeError string
  | KeyError string
  | TypeError
  | Overflow

section \<open>Tensors in a store (\<^verbatim>\<open>src/ctg/data/utils.py\<close>)\<close>

text \<open>
  A two-dimensional tensor of token ids, of shape \<open>(length rows, n_cols)\<close> and of
  element type \<^verbatim>\<open>int64\<close>. The number of columns is kept beside the rows, since a
  tensor with no row still has one. Every element of a tensor fits its element type;
  a Python integer is unbounded, and writing one that does not fit raises.
  Tensors are mutable objects: they live in a store, a list of tensors in which an
  address is an index, and allocation appends.
\<close>

record tensor =
  n_cols :: nat
  rows :: "int list list"

type_synonym addr = nat
type_synonym store = "tensor list"

definition int64 :: "int \<Rightarrow> bool" where
  "int64 v = (- (2 ^ 63) \<le> v \<and> v < 2 ^ 63)"

definition wf_tensor :: "tensor \<Rightarrow> bool" where
  "wf_tensor t = list_all (\<lambda>r. length r = n_cols t \<and> list_all int64 r) (rows t)"

definition alloc :: "tensor \<Rightarrow> store \<Rightarrow> addr \<times> store" where
  "alloc t h = (length h, h @ [t])"

text \<open>\<^verbatim>\<open>t.new_zeros(t.shape)\<close>: the value of a fresh tensor of the shape of \<open>t\<close>.\<close>

definition new_zeros :: "tensor \<Rightarrow> tensor" where
  "new_zeros t = \<lparr>n_cols = n_cols t, rows = map (\<lambda>r. replicate (n_cols t) 0) (rows t)\<rparr>"

text \<open>\<^verbatim>\<open>t[..., :-1].clone()\<close>: the values of all columns but the last, copied.\<close>

definition slice_to_last :: "tensor \<Rightarrow> int list list" where
  "slice_to_last t = map butlast (rows t)"

text \<open>\<^verbatim>\<open>t[..., 1:] = vs\<close>: column 0 of each row stays, the rest is overwritten.\<close>

definition set_from_1 :: "tensor \<Rightarrow> int list list \<Rightarrow> tensor" where
  "set_from_1 t vs = t\<lparr>rows := map2 (\<lambda>r v. take 1 r @ v) (rows t) vs\<rparr>"

text \<open>
  \<^verbatim>\<open>t[..., 0] = v\<close>; the caller has checked that \<open>v\<close> fits the element type and that
  column 0 exists.
\<close>

definition set_col_0 :: "tensor \<Rightarrow> int \<Rightarrow> tensor" where
  "set_col_0 t v = t\<lparr>rows := map (\<lambda>r. r[0 := v]) (rows t)\<rparr>"

text \<open>\<^verbatim>\<open>t.masked_fill_(t == x, v)\<close>; the caller has checked that \<open>v\<close> fits the element type.\<close>

definition masked_fill :: "tensor \<Rightarrow> int \<Rightarrow> int \<Rightarrow> tensor" where
  "masked_fill t x v = t\<lparr>rows := map (map (\<lambda>e. if e = x then v else e)) (rows t)\<rparr>"

text \<open>\<^verbatim>\<open>torch.all(t >= 0).item()\<close>.\<close>

definition all_ge_0 :: "tensor \<Rightarrow> bool" where
  "all_ge_0 t = list_all (list_all (\<lambda>e. 0 \<le> e)) (rows t)"

text \<open>The messages of the two assertions of \<^verbatim>\<open>right_shift\<close>.\<close>

definition pad_undefined :: string where
  "pad_undefined = ''self.model.config.pad_token_id has to be defined.''"

definition not_positive :: string where
  "not_positive = ''Verify that `shifted_input_ids` has only positive values''"

text \<open>
  \<^verbatim>\<open>right_shift(start_token_id, pad_token_id, input_ids)\<close>, statement by statement.
  \<open>input_ids\<close> is the address of the argument; the result is the exception raised or
  the address of the tensor returned, with the store as the call leaves it.
  The write of the start token (line 31) converts the value to the element type
  first, which raises \<open>Overflow\<close> for a value that does not fit, and then indexes
  column 0, which raises \<open>IndexError\<close> on a tensor that has no column.
  \<^verbatim>\<open>masked_fill_\<close> (line 36) converts the pad id in the same way, whether or not a
  position is to be filled.
\<close>

definition right_shift :: "int \<Rightarrow> int option \<Rightarrow> addr \<Rightarrow> store \<Rightarrow> (py_error + addr) \<times> store" where
  "right_shift start_token_id pad_token_id input_ids h =
    (let (shifted_input_ids, h1) = alloc (new_zeros (h ! input_ids)) h;
         h2 = h1[shifted_input_ids :=
                   set_from_1 (h1 ! shifted_input_ids) (slice_to_last (h1 ! input_ids))]
     in if \<not> int64 start_token_id then (Inl Overflow, h2)
        else if n_cols (h2 ! shifted_input_ids) = 0 then (Inl IndexError, h2)
        else
          let h3 = h2[shifted_input_ids := set_col_0 (h2 ! shifted_input_ids) start_token_id]
          in case pad_token_id of
               None \<Rightarrow> (Inl (AssertionError pad_undefined), h3)
             | Some pad \<Rightarrow>
                 if \<not> int64 pad then (Inl Overflow, h3)
                 else
                   let h4 = h3[shifted_input_ids :=
                                 masked_fill (h3 ! shifted_input_ids) (- 100) pad]
                   in if all_ge_0 (h4 ! shifted_input_ids) then (Inr shifted_input_ids, h4)
                      else (Inl (AssertionError not_positive), h4))"

text \<open>
  The grid that \<^verbatim>\<open>right_shift\<close> builds from the tensor \<open>t\<close> when \<open>t\<close> has a column
  and the start token \<open>s\<close> and the pad id \<open>p\<close> fit the element type, in closed form:
  the lemmas below relate the store of \<open>right_shift\<close> to it.
\<close>

definition filled :: "int \<Rightarrow> int \<Rightarrow> tensor \<Rightarrow> tensor" where
  "filled s p t = \<lparr>n_cols = n_cols t,
     rows = map (\<lambda>r. map (\<lambda>e. if e = - 100 then p else e) (s # butlast r)) (rows t)\<rparr>"

section \<open>Vocabulary files (\<^verbatim>\<open>extend_vocabulary\<close>)\<close>

text \<open>
  What a \<^verbatim>\<open>PosixPath\<close> and the file system answer for the vocabulary file: the suffix
  of the path, and the text of the file as text mode reads it (\<open>None\<close> when the path
  does not exist). Text is ASCII, one \<open>char\<close> per character.
\<close>

record text_file =
  suffix :: string
  content :: "string option"

text \<open>\<^verbatim>\<open>f.readlines()\<close>: the lines of the text, each with its terminating newline.\<close>

fun readlines :: "string \<Rightarrow> string list" where
  "readlines [] = []"
| "readlines (c # cs) =
     (if c = CHR 0x0A then [c] # readlines cs
      else (case readlines cs of [] \<Rightarrow> [[c]] | l # ls \<Rightarrow> (c # l) # ls))"

text \<open>\<^verbatim>\<open>str.isspace\<close> of one ASCII character, and \<^verbatim>\<open>str.strip()\<close>.\<close>

definition is_space :: "char \<Rightarrow> bool" where
  "is_space c = (let n = (of_char c :: nat) in (9 \<le> n \<and> n \<le> 13) \<or> (28 \<le> n \<and> n \<le> 32))"

definition strip :: "string \<Rightarrow> string" where
  "strip s = rev (dropWhile is_space (rev (dropWhile is_space s)))"

text \<open>
  The tokenizer of \<^verbatim>\<open>extend_vocabulary\<close> is an object of the \<^verbatim>\<open>transformers\<close>
  library; the model keeps the argument of every \<^verbatim>\<open>add_tokens\<close> call it receives.
\<close>

record vocab_tokenizer =
  add_tokens_calls :: "string list list"

definition extend_vocabulary ::
    "vocab_tokenizer \<Rightarrow> text_file \<Rightarrow> (py_error + unit) \<times> vocab_tokenizer" where
  "extend_vocabulary tokenizer fname =
     (if suffix fname \<notin> set [''.txt''] \<or> content fname = None then (Inl ValueError, tokenizer)
      else
        let vocab = map strip (readlines (the (content fname)))
        in (Inr (), tokenizer\<lparr>add_tokens_calls := add_tokens_calls tokenizer @ [vocab]\<rparr>))"

section \<open>Sequence-to-sequence preprocessing (\<^verbatim>\<open>load_seq2seq_data\<close>)\<close>

text \<open>
  A \<^verbatim>\<open>BatchEncoding\<close> is a dictionary from field names to grids of token ids.
  The tokenizer is an object of the \<^verbatim>\<open>transformers\<close> library: its pad id
  (\<open>None\<close> when it has none) and its call, which takes the target-tokenizer mode, the
  texts, the padding option and the maximal length (truncation is always on).
\<close>

type_synonym batch_encoding = "string \<rightharpoonup> int list list"

datatype padding = MaxLength | NoPadding

record tokenizer =
  pad_token_id :: "int option"
  tokenize :: "bool \<Rightarrow> string list \<Rightarrow> padding \<Rightarrow> int \<Rightarrow> batch_encoding"

record examples =
  source :: "string list"
  target :: "string list"

text \<open>The arguments of \<^verbatim>\<open>load_seq2seq_data\<close> that its body reads.\<close>

record seq2seq_args =
  max_src_length :: int
  max_tgt_length :: int
  pad_to_max_length :: bool
  max_samples :: int
  ignore_pad_for_loss :: bool
  prefix :: string

text \<open>
  The nested function \<^verbatim>\<open>preprocess\<close>. A dictionary lookup of a missing key raises
  \<open>KeyError\<close>. \<^verbatim>\<open>_label != tokenizer.pad_token_id\<close> compares a token id with the pad
  id, which may be \<open>None\<close>.
\<close>

definition preprocess :: "tokenizer \<Rightarrow> seq2seq_args \<Rightarrow> examples \<Rightarrow> py_error + batch_encoding" where
  "preprocess tk args exs =
     (let inputs = map (\<lambda>i. prefix args @ i) (source exs);
          inputs = tokenize tk False inputs
                     (if pad_to_max_length args then MaxLength else NoPadding)
                     (max_src_length args);
          targets = target exs;
          targets = tokenize tk True targets
                      (if pad_to_max_length args then MaxLength else NoPadding)
                      (max_tgt_length args)
      in case targets ''input_ids'' of
           None \<Rightarrow> Inl (KeyError ''input_ids'')
         | Some ids \<Rightarrow>
             let targets =
                   (if pad_to_max_length args \<and> ignore_pad_for_loss args
                    then targets(''input_ids'' \<mapsto>
                           map (\<lambda>label. map (\<lambda>l. if Some l \<noteq> pad_token_id tk then l else - 100)
                                  label) ids)
                    else targets)
             in case targets ''input_ids'' of
                  None \<Rightarrow> Inl (KeyError ''input_ids'')
                | Some labels \<Rightarrow> Inr (inputs(''labels'' \<mapsto> labels)))"

text \<open>
  The collators are classes of the \<^verbatim>\<open>transformers\<close> library; the model keeps the
  arguments \<^verbatim>\<open>DataCollatorForSeq2Seq\<close> is constructed with.
\<close>

datatype 'm collator =
    default_data_collator
  | DataCollatorForSeq2Seq tokenizer 'm (label_pad_token_id: "int option")

text \<open>
  The name \<^verbatim>\<open>model\<close>, which the body of \<^verbatim>\<open>load_seq2seq_data\<close> reads at line 164. It is
  no parameter of the function (line 83 is a comment), no local variable and no name
  of the module, so reading it raises \<open>NameError\<close>.
\<close>

definition model_name :: "py_error + 'm" where
  "model_name = Inl (NameError ''model'')"

text \<open>
  Lines 159 to 166 of \<^verbatim>\<open>load_seq2seq_data\<close>, the statement that binds \<^verbatim>\<open>collator\<close>
  once the dataset is loaded and mapped. Python evaluates the arguments of the
  constructor call from left to right: the tokenizer, the name \<^verbatim>\<open>model\<close>, then the
  label pad id.
\<close>

definition collator_statement :: "tokenizer \<Rightarrow> seq2seq_args \<Rightarrow> py_error + 'm collator" where
  "collator_statement tk args =
     (if pad_to_max_length args then Inr default_data_collator
      else
        (case model_name of
           Inl e \<Rightarrow> Inl e
         | Inr model \<Rightarrow>
             Inr (DataCollatorForSeq2Seq tk model
                    (if ignore_pad_for_loss args then Some (- 100) else pad_token_id tk))))"

section \<open>The training agent (\<^verbatim>\<open>tod/train/train.py\<close>)\<close>

text \<open>
  The model, the optimizer and the scheduler are objects of \<^verbatim>\<open>torch\<close>: every call the
  agent makes on them is an event of a log, in the order of the calls. \<open>'t\<close> is the
  type of the tensors of a batch. \<open>Forward\<close> holds the three arguments of the model call
  and whether gradients are enabled around it; \<open>Report\<close> is the \<^verbatim>\<open>print\<close> of an epoch,
  with the two losses.
\<close>

datatype 't event =
    ModelTrain
  | ModelEval
  | ToCuda 't
  | ZeroGrad
  | Forward 't 't 't bool
  | LossMean
  | Backward
  | ClipGradNorm real
  | OptimizerStep
  | SchedulerStep
  | Time
  | Report real real

text \<open>
  The attributes of a \<^verbatim>\<open>TrainingAgent\<close> that the epoch methods read: the device list
  \<^verbatim>\<open>self.args.train.gpu\<close>, the threshold \<^verbatim>\<open>self.args.train.clip_grad\<close>, \<^verbatim>\<open>self.device\<close>,
  whether \<^verbatim>\<open>self.scheduler\<close> is set, and the two loaders as the batches they yield.
  The loss of a model call (it may depend on the calls made so far), \<^verbatim>\<open>loss.mean()\<close>
  and \<^verbatim>\<open>loss.item()\<close> are \<^verbatim>\<open>torch\<close>'s.
\<close>

record ('t, 'l) agent =
  gpu :: "nat list option"
  clip_grad :: real
  device :: string
  has_scheduler :: bool
  train_loader :: "('t \<times> 't \<times> 't) list"
  val_loader :: "('t \<times> 't \<times> 't) list"
  model_call :: "'t event list \<Rightarrow> 't \<Rightarrow> 't \<Rightarrow> 't \<Rightarrow> 'l"
  loss_mean :: "'l \<Rightarrow> 'l"
  loss_item :: "'l \<Rightarrow> real"

text \<open>
  Three attribute lookups that the class body decides. \<^verbatim>\<open>self.train\<close> is the method
  \<^verbatim>\<open>train\<close>, and a method has no attribute \<^verbatim>\<open>gpu\<close>; the class defines and assigns no
  attribute \<^verbatim>\<open>gpu\<close> and no attribute \<^verbatim>\<open>evaluate\<close> (its validation method is named
  \<^verbatim>\<open>validate\<close>).
\<close>

definition self_train_gpu :: "py_error + nat list" where
  "self_train_gpu = Inl (AttributeError ''gpu'')"

definition self_gpu :: "py_error + nat list option" where
  "self_gpu = Inl (AttributeError ''gpu'')"

definition self_evaluate ::
    "py_error + (('t, 'l) agent \<Rightarrow> nat \<Rightarrow> 't event list \<Rightarrow> (py_error + real) \<times> 't event list)" where
  "self_evaluate = Inl (AttributeError ''evaluate'')"

text \<open>
  One iteration of the loop of \<^verbatim>\<open>epoch_iteration\<close>. The local variable \<^verbatim>\<open>input_mask\<close>
  is assigned in the branch that moves the batch to the device only (the loop variable
  is \<^verbatim>\<open>mask\<close>, written \<open>mask_t\<close> here), so it is passed along as an option: \<open>None\<close>
  is unbound, and reading it raises \<open>UnboundLocalError\<close>. \<^verbatim>\<open>len(None)\<close> raises
  \<open>TypeError\<close>. Moving a tensor to the device is an event; its values stay.
\<close>

definition train_step ::
    "('t, 'l) agent \<Rightarrow> 't \<times> 't \<times> 't \<Rightarrow> 't option \<Rightarrow> real \<Rightarrow> 't event list \<Rightarrow>
       (py_error + 't option \<times> real) \<times> 't event list" where
  "train_step ag batch input_mask train_loss evs =
     (case batch of (inputs, mask_t, targets) \<Rightarrow>
        case (if gpu ag \<noteq> None \<and> device ag = ''cuda''
              then (case self_train_gpu of
                      Inl e \<Rightarrow> (Inl e, evs)
                    | Inr g \<Rightarrow> (Inr (Some mask_t),
                                evs @ [ToCuda inputs, ToCuda mask_t, ToCuda targets]))
              else (Inr input_mask, evs)) of
          (Inl e, evs1) \<Rightarrow> (Inl e, evs1)
        | (Inr input_mask1, evs1) \<Rightarrow>
            let evs2 = evs1 @ [ZeroGrad]
            in case input_mask1 of
                 None \<Rightarrow> (Inl (UnboundLocalError ''input_mask''), evs2)
               | Some m \<Rightarrow>
                   let loss = model_call ag evs2 inputs m targets;
                       evs3 = evs2 @ [Forward inputs m targets True]
                   in case gpu ag of
                        None \<Rightarrow> (Inl TypeError, evs3)
                      | Some g \<Rightarrow>
                          let loss1 = (if length g > 1 then loss_mean ag loss else loss);
                              evs4 = (if length g > 1 then evs3 @ [LossMean] else evs3);
                              train_loss1 = train_loss + loss_item ag loss1;
                              evs5 = evs4 @ [Backward];
                              evs6 = (if clip_grad ag > 0
                                      then evs5 @ [ClipGradNorm (clip_grad ag)] else evs5);
                              evs7 = evs6 @ [OptimizerStep];
                              evs8 = (if has_scheduler ag then evs7 @ [SchedulerStep] else evs7)
                          in (Inr (input_mask1, train_loss1), evs8))"

fun train_loop ::
    "('t, 'l) agent \<Rightarrow> ('t \<times> 't \<times> 't) list \<Rightarrow> 't option \<Rightarrow> real \<Rightarrow> 't event list \<Rightarrow>
       (py_error + real) \<times> 't event list" where
  "train_loop ag [] input_mask train_loss evs = (Inr train_loss, evs)"
| "train_loop ag (batch # batches) input_mask train_loss evs =
     (case train_step ag batch input_mask train_loss evs of
        (Inl e, evs1) \<Rightarrow> (Inl e, evs1)
      | (Inr (input_mask1, train_loss1), evs1) \<Rightarrow>
          train_loop ag batches input_mask1 train_loss1 evs1)"

definition epoch_iteration ::
    "('t, 'l) agent \<Rightarrow> nat \<Rightarrow> nat \<Rightarrow> 't event list \<Rightarrow> (py_error + real) \<times> 't event list" where
  "epoch_iteration ag trial epoch evs = train_loop ag (train_loader ag) None 0 (evs @ [ModelTrain])"

text \<open>One iteration of the loop of \<^verbatim>\<open>validate\<close>, and the method.\<close>

definition validate_step ::
    "('t, 'l) agent \<Rightarrow> 't \<times> 't \<times> 't \<Rightarrow> 't option \<Rightarrow> real \<Rightarrow> 't event list \<Rightarrow>
       (py_error + 't option \<times> real) \<times> 't event list" where
  "validate_step ag batch input_mask val_loss evs =
     (case batch of (inputs, mask_t, targets) \<Rightarrow>
        case self_gpu of
          Inl e \<Rightarrow> (Inl e, evs)
        | Inr self_gpu_value \<Rightarrow>
            let moved = (self_gpu_value \<noteq> None \<and> device ag = ''cuda'');
                input_mask1 = (if moved then Some mask_t else input_mask);
                evs1 = (if moved then evs @ [ToCuda inputs, ToCuda mask_t, ToCuda targets] else evs)
            in case input_mask1 of
                 None \<Rightarrow> (Inl (UnboundLocalError ''input_mask''), evs1)
               | Some m \<Rightarrow>
                   let loss = model_call ag evs1 inputs m targets;
                       evs2 = evs1 @ [Forward inputs m targets False]
                   in case gpu ag of
                        None \<Rightarrow> (Inl TypeError, evs2)
                      | Some g \<Rightarrow>
                          let loss1 = (if length g > 1 then loss_mean ag loss else loss);
                              evs3 = (if length g > 1 then evs2 @ [LossMean] else evs2)
                          in (Inr (input_mask1, val_loss + loss_item ag loss1), evs3))"

fun validate_loop ::
    "('t, 'l) agent \<Rightarrow> ('t \<times> 't \<times> 't) list \<Rightarrow> 't option \<Rightarrow> real \<Rightarrow> 't event list \<Rightarrow>
       (py_error + real) \<times> 't event list" where
  "validate_loop ag [] input_mask val_loss evs = (Inr val_loss, evs)"
| "validate_loop ag (batch # batches) input_mask val_loss evs =
     (case validate_step ag batch input_mask val_loss evs of
        (Inl e, evs1) \<Rightarrow> (Inl e, evs1)
      | (Inr (input_mask1, val_loss1), evs1) \<Rightarrow>
          validate_loop ag batches input_mask1 val_loss1 evs1)"

definition validate ::
    "('t, 'l) agent \<Rightarrow> nat \<Rightarrow> 't event list \<Rightarrow> (py_error + real) \<times> 't event list" where
  "validate ag epoch evs = validate_loop ag (val_loader ag) None 0 (evs @ [ModelEval])"

text \<open>
  \<^verbatim>\<open>run_epochs\<close>: for each epoch the clock is read, \<^verbatim>\<open>epoch_iteration\<close> runs, the clock
  is read, \<^verbatim>\<open>self.evaluate\<close> is looked up and called, the clock is read and the line is
  printed.
\<close>

fun run_epochs ::
    "('t, 'l) agent \<Rightarrow> nat \<Rightarrow> nat list \<Rightarrow> 't event list \<Rightarrow> (py_error + unit) \<times> 't event list" where
  "run_epochs ag trial [] evs = (Inr (), evs)"
| "run_epochs ag trial (epoch # epochs) evs =
     (case epoch_iteration ag trial epoch (evs @ [Time]) of
        (Inl e, evs1) \<Rightarrow> (Inl e, evs1)
      | (Inr train_loss, evs1) \<Rightarrow>
          let evs2 = evs1 @ [Time]
          in case self_evaluate of
               Inl e \<Rightarrow> (Inl e, evs2)
             | Inr evaluate \<Rightarrow>
                 (case evaluate ag epoch evs2 of
                    (Inl e, evs3) \<Rightarrow> (Inl e, evs3)
                  | (Inr val_loss, evs3) \<Rightarrow>
                      run_epochs ag trial epochs (evs3 @ [Time, Report train_loss val_loss])))"

section \<open>Properties of \<^verbatim>\<open>right_shift\<close>\<close>

subsection \<open>The store after a call, in closed form\<close>

lemma map2_same: "map2 f (map g xs) (map k xs) = map (\<lambda>x. f (g x) (k x)) xs"
  by (induction xs) simp_all

lemma shift_row_0: "0 < n \<Longrightarrow> (take 1 (replicate n (0::int)) @ butlast r)[0 := s] = s # butlast r"
  by (cases n) simp_all

lemma shifted_value:
  "set_from_1 (new_zeros t) (slice_to_last t) =
     \<lparr>n_cols = n_cols t, rows = map (\<lambda>r. take 1 (replicate (n_cols t) 0) @ butlast r) (rows t)\<rparr>"
  by (simp add: set_from_1_def new_zeros_def slice_to_last_def map2_same)

lemma started_value:
  "0 < n_cols t \<Longrightarrow> set_col_0 (set_from_1 (new_zeros t) (slice_to_last t)) s =
     \<lparr>n_cols = n_cols t, rows = map (\<lambda>r. s # butlast r) (rows t)\<rparr>"
  by (simp add: shifted_value set_col_0_def shift_row_0)

lemma right_shift_overflow:
  assumes "a < length h" "\<not> int64 s"
  shows "right_shift s pad a h =
    (Inl Overflow,
     h @ [\<lparr>n_cols = n_cols (h ! a),
            rows = map (\<lambda>r. take 1 (replicate (n_cols (h ! a)) 0) @ butlast r) (rows (h ! a))\<rparr>])"
  using assms shifted_value [of "h ! a"]
  by (simp add: right_shift_def alloc_def nth_append)

lemma right_shift_no_cols:
  assumes "a < length h" "int64 s" "n_cols (h ! a) = 0"
  shows "right_shift s pad a h =
    (Inl IndexError, h @ [\<lparr>n_cols = 0, rows = map butlast (rows (h ! a))\<rparr>])"
  using assms shifted_value [of "h ! a"]
  by (simp add: right_shift_def alloc_def nth_append)

lemma filled_value:
  "masked_fill \<lparr>n_cols = n_cols t, rows = map (\<lambda>r. s # butlast r) (rows t)\<rparr> (- 100) p
     = filled s p t"
  by (simp add: masked_fill_def filled_def)

lemma right_shift_cols:
  assumes "a < length h" "int64 s" "0 < n_cols (h ! a)"
  shows "right_shift s pad a h =
    (case pad of
       None \<Rightarrow> (Inl (AssertionError pad_undefined),
                h @ [\<lparr>n_cols = n_cols (h ! a), rows = map (\<lambda>r. s # butlast r) (rows (h ! a))\<rparr>])
     | Some p \<Rightarrow>
         if \<not> int64 p
         then (Inl Overflow,
               h @ [\<lparr>n_cols = n_cols (h ! a), rows = map (\<lambda>r. s # butlast r) (rows (h ! a))\<rparr>])
         else (if all_ge_0 (filled s p (h ! a)) then Inr (length h)
               else Inl (AssertionError not_positive), h @ [filled s p (h ! a)]))"
proof -
  let ?t = "h ! a"
  have sh: "n_cols (set_from_1 (new_zeros ?t) (slice_to_last ?t)) = n_cols ?t"
    by (simp add: shifted_value)
  note st = started_value [OF assms(3), of s]
  note fl = filled_value [of ?t s]
  show ?thesis
    using assms sh
    by (simp add: right_shift_def alloc_def nth_append st fl Let_def split: option.split)
qed

lemma filled_shape:
  "n_cols (filled s p t) = n_cols t" "length (rows (filled s p t)) = length (rows t)"
  by (simp_all add: filled_def)

lemma filled_wf:
  assumes "wf_tensor t" "0 < n_cols t" "int64 s" "int64 p"
  shows "wf_tensor (filled s p t)"
  using assms
  by (auto simp: wf_tensor_def filled_def list_all_iff dest: in_set_butlastD)

lemma filled_col_0:
  "r < length (rows t) \<Longrightarrow> rows (filled s p t) ! r ! 0 = (if s = - 100 then p else s)"
  by (simp add: filled_def)

lemma filled_col_i:
  assumes "wf_tensor t" "r < length (rows t)" "0 < i" "i < n_cols t"
  shows "rows (filled s p t) ! r ! i =
    (if rows t ! r ! (i - 1) = - 100 then p else rows t ! r ! (i - 1))"
proof -
  have len: "length (rows t ! r) = n_cols t"
    using assms(1,2) by (simp add: wf_tensor_def list_all_length)
  obtain j where j: "i = Suc j" using assms(3) by (cases i) auto
  have "j < length (butlast (rows t ! r))" using len assms(4) j by simp
  then show ?thesis using assms(2) j by (simp add: filled_def nth_butlast)
qed

lemma filled_ge_0:
  "all_ge_0 (filled s p t) =
     (\<forall>r \<in> set (rows t). \<forall>e \<in> set (s # butlast r). 0 \<le> (if e = - 100 then p else e))"
  by (auto simp: all_ge_0_def filled_def list_all_iff)

lemma filled_no_sentinel:
  assumes "all_ge_0 (filled s p t)" "r \<in> set (rows (filled s p t))"
  shows "- 100 \<notin> set r"
proof
  assume "- 100 \<in> set r"
  moreover have "\<forall>x \<in> set (rows (filled s p t)). \<forall>e \<in> set x. 0 \<le> e"
    using assms(1) by (simp add: all_ge_0_def list_all_iff)
  ultimately have "(0::int) \<le> - 100" using assms(2) by blast
  then show False by simp
qed

lemma right_shift_returns:
  assumes "a < length h" "right_shift s pad a h = (Inr out, h')"
  shows "int64 s \<and> 0 < n_cols (h ! a) \<and>
         (\<exists>p. pad = Some p \<and> int64 p \<and> all_ge_0 (filled s p (h ! a)) \<and>
              out = length h \<and> h' = h @ [filled s p (h ! a)])"
proof (cases "int64 s")
  case False
  with assms show ?thesis by (simp add: right_shift_overflow)
next
  case s: True
  show ?thesis
  proof (cases "n_cols (h ! a) = 0")
    case True
    with assms s show ?thesis by (simp add: right_shift_no_cols)
  next
    case False
    then have "0 < n_cols (h ! a)" by simp
    with assms s show ?thesis
      by (auto simp: right_shift_cols split: option.splits if_splits)
  qed
qed

lemma right_shift_result:
  assumes "a < length h" "0 < n_cols (h ! a)"
  shows "fst (right_shift s pad a h) =
    (if \<not> int64 s then Inl Overflow
     else case pad of
            None \<Rightarrow> Inl (AssertionError pad_undefined)
          | Some p \<Rightarrow>
              if \<not> int64 p then Inl Overflow
              else if all_ge_0 (filled s p (h ! a)) then Inr (length h)
              else Inl (AssertionError not_positive))"
  using assms
  by (cases "int64 s") (simp_all add: right_shift_overflow right_shift_cols split: option.split)

lemma int64_small: "int64 0" "int64 1" "int64 5" "int64 6" "int64 7" "int64 8" "int64 9"
  "int64 (- 100)" "int64 (- 5)"
  by (simp_all add: int64_def)

lemma ex_5_6_7:
  "right_shift 1 (Some 0) 0 [\<lparr>n_cols = 3, rows = [[5, 6, 7]]\<rparr>] =
     (Inr 1, [\<lparr>n_cols = 3, rows = [[5, 6, 7]]\<rparr>, \<lparr>n_cols = 3, rows = [[1, 5, 6]]\<rparr>])"
  by (simp add: right_shift_cols filled_def all_ge_0_def int64_small)

lemma ex_m100_8_9:
  "right_shift 1 (Some 0) 0 [\<lparr>n_cols = 3, rows = [[- 100, 8, 9]]\<rparr>] =
     (Inr 1, [\<lparr>n_cols = 3, rows = [[- 100, 8, 9]]\<rparr>, \<lparr>n_cols = 3, rows = [[1, 0, 8]]\<rparr>])"
  by (simp add: right_shift_cols filled_def all_ge_0_def int64_small)

lemma accepts_sentinel:
  assumes "a < length h" "0 < n_cols (h ! a)" "int64 s" "int64 p" "0 \<le> p"
    and "0 \<le> s \<or> s = - 100"
    and "\<forall>r \<in> set (rows (h ! a)). \<forall>e \<in> set (butlast r). 0 \<le> e \<or> e = - 100"
  shows "right_shift s (Some p) a h = (Inr (length h), h @ [filled s p (h ! a)])"
proof -
  have "all_ge_0 (filled s p (h ! a))"
    unfolding filled_ge_0 using assms(5,6,7) by auto
  with assms(1-4) show ?thesis by (simp add: right_shift_cols)
qed

lemma no_cols_no_values:
  assumes "wf_tensor t" "n_cols t = 0" "r \<in> set (map butlast (rows t))"
  shows "r = []"
  using assms by (auto simp: wf_tensor_def list_all_iff)

subsection \<open>Claims\<close>

text \<open>
  C1, as amended. For every two-dimensional grid \<open>input_ids\<close> with at least one column,
  the outcome of \<^verbatim>\<open>right_shift\<close> is decided in this order. A start token that does not
  fit the element type raises the overflow error of its write; a missing pad id fails
  the first assertion; a pad id that does not fit raises the overflow error of its
  write; a negative value in the grid built (in each row the start token, then the
  input columns but the last, with \<open>-100\<close> replaced by the pad id) fails the assertion
  of the post-condition; in every other case the call returns. The grid returned has
  the shape of the input; its column 0 holds the start token and its column \<open>i \<ge> 1\<close>
  holds input column \<open>i - 1\<close>, except that every position (of column 0 too) that holds
  \<open>-100\<close> after the shift holds the pad id. \<open>[[5,6,7]]\<close> with start token 1 and pad
  id 0 gives \<open>[[1,5,6]]\<close>.
\<close>

theorem right_shift_shifts:
  assumes "input_ids < length h" and "wf_tensor (h ! input_ids)"
    and "0 < n_cols (h ! input_ids)"
  shows "fst (right_shift s pad input_ids h) =
           (if \<not> int64 s then Inl Overflow
            else case pad of
                   None \<Rightarrow> Inl (AssertionError pad_undefined)
                 | Some p \<Rightarrow>
                     if \<not> int64 p then Inl Overflow
                     else if (\<forall>r \<in> set (rows (h ! input_ids)). \<forall>e \<in> set (s # butlast r).
                                0 \<le> (if e = - 100 then p else e))
                     then Inr (length h)
                     else Inl (AssertionError not_positive))
       \<and> (\<forall>out h'. right_shift s pad input_ids h = (Inr out, h') \<longrightarrow>
            (\<exists>p. pad = Some p
               \<and> n_cols (h' ! out) = n_cols (h ! input_ids)
               \<and> length (rows (h' ! out)) = length (rows (h ! input_ids))
               \<and> wf_tensor (h' ! out)
               \<and> (\<forall>r < length (rows (h ! input_ids)).
                     rows (h' ! out) ! r ! 0 = (if s = - 100 then p else s)
                   \<and> (\<forall>i. 0 < i \<and> i < n_cols (h ! input_ids) \<longrightarrow>
                         rows (h' ! out) ! r ! i =
                           (if rows (h ! input_ids) ! r ! (i - 1) = - 100 then p
                            else rows (h ! input_ids) ! r ! (i - 1))))))
       \<and> right_shift 1 (Some 0) 0 [\<lparr>n_cols = 3, rows = [[5, 6, 7]]\<rparr>] =
           (Inr 1, [\<lparr>n_cols = 3, rows = [[5, 6, 7]]\<rparr>, \<lparr>n_cols = 3, rows = [[1, 5, 6]]\<rparr>])"
proof (intro conjI allI impI)
  show "fst (right_shift s pad input_ids h) =
           (if \<not> int64 s then Inl Overflow
            else case pad of
                   None \<Rightarrow> Inl (AssertionError pad_undefined)
                 | Some p \<Rightarrow>
                     if \<not> int64 p then Inl Overflow
                     else if (\<forall>r \<in> set (rows (h ! input_ids)). \<forall>e \<in> set (s # butlast r).
                                0 \<le> (if e = - 100 then p else e))
                     then Inr (length h)
                     else Inl (AssertionError not_positive))"
    using right_shift_result [OF assms(1,3)] by (simp only: filled_ge_0)
next
  fix out h'
  assume ret: "right_shift s pad input_ids h = (Inr out, h')"
  from right_shift_returns [OF assms(1) ret]
  obtain p where p: "pad = Some p" "out = length h" "h' = h @ [filled s p (h ! input_ids)]"
    and r: "int64 s" "int64 p"
    by blast
  have out: "h' ! out = filled s p (h ! input_ids)" using p by simp
  show "\<exists>p. pad = Some p
               \<and> n_cols (h' ! out) = n_cols (h ! input_ids)
               \<and> length (rows (h' ! out)) = length (rows (h ! input_ids))
               \<and> wf_tensor (h' ! out)
               \<and> (\<forall>r < length (rows (h ! input_ids)).
                     rows (h' ! out) ! r ! 0 = (if s = - 100 then p else s)
                   \<and> (\<forall>i. 0 < i \<and> i < n_cols (h ! input_ids) \<longrightarrow>
                         rows (h' ! out) ! r ! i =
                           (if rows (h ! input_ids) ! r ! (i - 1) = - 100 then p
                            else rows (h ! input_ids) ! r ! (i - 1))))"
    unfolding out
    using p(1) filled_shape [of s p "h ! input_ids"] filled_wf [OF assms(2,3) r]
      filled_col_0 [of _ "h ! input_ids" s p] filled_col_i [OF assms(2), of _ _ s p]
    by (intro exI [of _ p]) simp
next
  show "right_shift 1 (Some 0) 0 [\<lparr>n_cols = 3, rows = [[5, 6, 7]]\<rparr>] =
           (Inr 1, [\<lparr>n_cols = 3, rows = [[5, 6, 7]]\<rparr>, \<lparr>n_cols = 3, rows = [[1, 5, 6]]\<rparr>])"
    by (rule ex_5_6_7)
qed

theorem right_shift_shifts_witness:
  "0 < length [\<lparr>n_cols = 3, rows = [[5, 6, 7]]\<rparr>]
   \<and> wf_tensor ([\<lparr>n_cols = 3, rows = [[5, 6, 7]]\<rparr>] ! 0)
   \<and> 0 < n_cols ([\<lparr>n_cols = 3, rows = [[5, 6, 7]]\<rparr>] ! 0)
   \<and> fst (right_shift 1 (Some 0) 0 [\<lparr>n_cols = 3, rows = [[5, 6, 7]]\<rparr>]) = Inr 1
   \<and> fst (right_shift 1 None 0 [\<lparr>n_cols = 3, rows = [[5, 6, 7]]\<rparr>])
       = Inl (AssertionError pad_undefined)
   \<and> fst (right_shift (2 ^ 63) (Some 0) 0 [\<lparr>n_cols = 3, rows = [[5, 6, 7]]\<rparr>]) = Inl Overflow"
proof -
  let ?h = "[\<lparr>n_cols = 3, rows = [[5, 6, 7]]\<rparr>]"
  have a: "0 < length ?h" by simp
  have w: "wf_tensor (?h ! 0)" by (simp add: wf_tensor_def int64_def)
  have c: "0 < n_cols (?h ! 0)" by simp
  have 1: "fst (right_shift 1 (Some 0) 0 ?h) = Inr 1"
    using right_shift_shifts [OF a w c, of 1 "Some 0"] by (simp add: int64_def)
  have 2: "fst (right_shift 1 None 0 ?h) = Inl (AssertionError pad_undefined)"
    using right_shift_shifts [OF a w c, of 1 None] by (simp add: int64_def)
  have 3: "fst (right_shift (2 ^ 63) (Some 0) 0 ?h) = Inl Overflow"
    using right_shift_shifts [OF a w c, of "2 ^ 63" "Some 0"] by (simp add: int64_def)
  from a w c 1 2 3 show ?thesis by blast
qed

text \<open>
  The claim as stated promises a returned grid for every grid with a column; on
  \<open>[[-5,6,7]]\<close> with start token 1 and pad id 0 the call raises the assertion of the
  post-condition instead.
\<close>

theorem right_shift_shifts_counterexample:
  "fst (right_shift 1 (Some 0) 0 [\<lparr>n_cols = 3, rows = [[- 5, 6, 7]]\<rparr>])
     = Inl (AssertionError not_positive)"
  by (simp add: right_shift_cols filled_def all_ge_0_def int64_small)

text \<open>
  C2. Whenever \<^verbatim>\<open>right_shift\<close> returns normally, no row of the returned grid holds
  \<open>-100\<close>: a pad id is given, and every position that holds \<open>-100\<close> after the shift
  (the start token or a value shifted in from the input) holds the pad id in the
  returned grid. A grid that holds \<open>-100\<close> is accepted: when the grid has a column, the
  pad id is non-negative, and the start token and every value of the input columns
  but the last are non-negative or \<open>-100\<close> (all within the element type), the call
  returns the shifted grid with every \<open>-100\<close> replaced by the pad id and every other
  value kept. \<open>[[-100,8,9]]\<close> with start token 1 and pad id 0 gives \<open>[[1,0,8]]\<close>.
\<close>

theorem right_shift_no_sentinel:
  assumes "input_ids < length h"
  shows "(\<forall>out h'. right_shift s pad input_ids h = (Inr out, h') \<longrightarrow>
            (\<forall>r \<in> set (rows (h' ! out)). - 100 \<notin> set r)
          \<and> (\<exists>p. pad = Some p \<and>
                (\<forall>r < length (rows (h ! input_ids)). \<forall>i < length (rows (h' ! out) ! r).
                   (s # butlast (rows (h ! input_ids) ! r)) ! i = - 100 \<longrightarrow>
                     rows (h' ! out) ! r ! i = p)))
       \<and> (\<forall>p. 0 < n_cols (h ! input_ids) \<and> int64 s \<and> int64 p \<and> 0 \<le> p
              \<and> (0 \<le> s \<or> s = - 100)
              \<and> (\<forall>r \<in> set (rows (h ! input_ids)). \<forall>e \<in> set (butlast r). 0 \<le> e \<or> e = - 100)
            \<longrightarrow>
            right_shift s (Some p) input_ids h =
              (Inr (length h),
               h @ [\<lparr>n_cols = n_cols (h ! input_ids),
                      rows = map (\<lambda>r. map (\<lambda>e. if e = - 100 then p else e) (s # butlast r))
                               (rows (h ! input_ids))\<rparr>]))
       \<and> right_shift 1 (Some 0) 0 [\<lparr>n_cols = 3, rows = [[- 100, 8, 9]]\<rparr>] =
           (Inr 1, [\<lparr>n_cols = 3, rows = [[- 100, 8, 9]]\<rparr>, \<lparr>n_cols = 3, rows = [[1, 0, 8]]\<rparr>])"
proof (intro conjI allI impI)
  fix out h'
  assume ret: "right_shift s pad input_ids h = (Inr out, h')"
  from right_shift_returns [OF assms ret]
  obtain p where p: "pad = Some p" "all_ge_0 (filled s p (h ! input_ids))"
    "out = length h" "h' = h @ [filled s p (h ! input_ids)]"
    by blast
  have out: "h' ! out = filled s p (h ! input_ids)" using p by simp
  show "\<forall>r \<in> set (rows (h' ! out)). - 100 \<notin> set r"
    unfolding out using filled_no_sentinel [OF p(2)] by blast
  have b: "\<forall>r < length (rows (h ! input_ids)). \<forall>i < length (rows (h' ! out) ! r).
               (s # butlast (rows (h ! input_ids) ! r)) ! i = - 100 \<longrightarrow>
                 rows (h' ! out) ! r ! i = p"
  proof (intro allI impI)
    fix r i
    assume r: "r < length (rows (h ! input_ids))"
      and i: "i < length (rows (h' ! out) ! r)"
      and v: "(s # butlast (rows (h ! input_ids) ! r)) ! i = - 100"
    have row: "rows (h' ! out) ! r =
        map (\<lambda>e. if e = - 100 then p else e) (s # butlast (rows (h ! input_ids) ! r))"
      unfolding out using r by (simp add: filled_def)
    have "i < length (s # butlast (rows (h ! input_ids) ! r))" using i row by simp
    then have "rows (h' ! out) ! r ! i =
        (\<lambda>e. if e = - 100 then p else e) ((s # butlast (rows (h ! input_ids) ! r)) ! i)"
      unfolding row by (rule nth_map)
    with v show "rows (h' ! out) ! r ! i = p" by simp
  qed
  with p(1) show "\<exists>p. pad = Some p \<and>
                (\<forall>r < length (rows (h ! input_ids)). \<forall>i < length (rows (h' ! out) ! r).
                   (s # butlast (rows (h ! input_ids) ! r)) ! i = - 100 \<longrightarrow>
                     rows (h' ! out) ! r ! i = p)"
    by blast
next
  fix p
  assume c: "0 < n_cols (h ! input_ids) \<and> int64 s \<and> int64 p \<and> 0 \<le> p
              \<and> (0 \<le> s \<or> s = - 100)
              \<and> (\<forall>r \<in> set (rows (h ! input_ids)). \<forall>e \<in> set (butlast r). 0 \<le> e \<or> e = - 100)"
  then have "right_shift s (Some p) input_ids h
      = (Inr (length h), h @ [filled s p (h ! input_ids)])"
    using assms by (intro accepts_sentinel) simp_all
  then show "right_shift s (Some p) input_ids h =
              (Inr (length h),
               h @ [\<lparr>n_cols = n_cols (h ! input_ids),
                      rows = map (\<lambda>r. map (\<lambda>e. if e = - 100 then p else e) (s # butlast r))
                               (rows (h ! input_ids))\<rparr>])"
    by (simp add: filled_def)
next
  show "right_shift 1 (Some 0) 0 [\<lparr>n_cols = 3, rows = [[- 100, 8, 9]]\<rparr>] =
           (Inr 1, [\<lparr>n_cols = 3, rows = [[- 100, 8, 9]]\<rparr>, \<lparr>n_cols = 3, rows = [[1, 0, 8]]\<rparr>])"
    by (rule ex_m100_8_9)
qed

theorem right_shift_no_sentinel_witness:
  "0 < length [\<lparr>n_cols = 2, rows = [[- 100, 4], [3, - 100]]\<rparr>]
   \<and> right_shift (- 100) (Some 7) 0 [\<lparr>n_cols = 2, rows = [[- 100, 4], [3, - 100]]\<rparr>] =
       (Inr 1, [\<lparr>n_cols = 2, rows = [[- 100, 4], [3, - 100]]\<rparr>,
                \<lparr>n_cols = 2, rows = [[7, 7], [7, 3]]\<rparr>])
   \<and> - 100 \<notin> set [7, 7 :: int] \<and> - 100 \<notin> set [7, 3 :: int]"
proof -
  let ?h = "[\<lparr>n_cols = 2, rows = [[- 100, 4], [3, - 100]]\<rparr>]"
  let ?h' = "[\<lparr>n_cols = 2, rows = [[- 100, 4], [3, - 100]]\<rparr>,
              \<lparr>n_cols = 2, rows = [[7, 7], [7, 3]]\<rparr>]"
  have a: "0 < length ?h" by simp
  note t = right_shift_no_sentinel [OF a, of "- 100" "Some 7"]
  have c: "0 < n_cols (?h ! 0) \<and> int64 (- 100) \<and> int64 7 \<and> (0::int) \<le> 7
      \<and> ((0::int) \<le> - 100 \<or> - 100 = (- 100 :: int))
      \<and> (\<forall>r \<in> set (rows (?h ! 0)). \<forall>e \<in> set (butlast r). 0 \<le> e \<or> e = - 100)"
    by (simp add: int64_def)
  from t c have r: "right_shift (- 100) (Some 7) 0 ?h = (Inr 1, ?h')" by simp
  from t r have "\<forall>r \<in> set (rows (?h' ! 1)). - 100 \<notin> set r" by blast
  then have "- 100 \<notin> set [7, 7 :: int] \<and> - 100 \<notin> set [7, 3 :: int]" by simp
  with a r show ?thesis by blast
qed

text \<open>
  C3, as amended. With no pad id, \<^verbatim>\<open>right_shift\<close> raises: the overflow error of the
  write of the start token when the start token does not fit the element type, the
  \<open>IndexError\<close> of that write when the grid has no column, and the assertion on the pad
  id otherwise; the write comes before the assertion. With a pad id and a negative
  value in the grid it has built, it raises the assertion of the post-condition when
  the start token and the pad id fit the element type, and the overflow error of the
  write otherwise. When it returns, every value of the returned grid is non-negative.
\<close>

theorem right_shift_fatal:
  assumes "input_ids < length h" and "wf_tensor (h ! input_ids)"
  shows "(pad = None \<longrightarrow>
            fst (right_shift s pad input_ids h) =
              Inl (if \<not> int64 s then Overflow
                   else if n_cols (h ! input_ids) = 0 then IndexError
                   else AssertionError pad_undefined))
       \<and> (\<forall>p. pad = Some p
              \<and> (\<exists>r \<in> set (rows (snd (right_shift s pad input_ids h) ! length h)).
                    \<exists>e \<in> set r. e < 0) \<longrightarrow>
            fst (right_shift s pad input_ids h) =
              Inl (if \<not> int64 s \<or> \<not> int64 p then Overflow else AssertionError not_positive))
       \<and> (\<forall>out h'. right_shift s pad input_ids h = (Inr out, h') \<longrightarrow>
            (\<forall>r \<in> set (rows (h' ! out)). \<forall>e \<in> set r. 0 \<le> e))"
proof (intro conjI allI impI)
  assume "pad = None"
  with assms(1) show "fst (right_shift s pad input_ids h) =
      Inl (if \<not> int64 s then Overflow
           else if n_cols (h ! input_ids) = 0 then IndexError
           else AssertionError pad_undefined)"
    by (cases "int64 s"; cases "n_cols (h ! input_ids) = 0")
       (simp_all add: right_shift_overflow right_shift_no_cols right_shift_cols)
next
  fix p
  assume a: "pad = Some p
      \<and> (\<exists>r \<in> set (rows (snd (right_shift s pad input_ids h) ! length h)). \<exists>e \<in> set r. e < 0)"
  show "fst (right_shift s pad input_ids h) =
      Inl (if \<not> int64 s \<or> \<not> int64 p then Overflow else AssertionError not_positive)"
  proof (cases "int64 s")
    case False
    with assms(1) show ?thesis by (simp add: right_shift_overflow)
  next
    case s: True
    show ?thesis
    proof (cases "n_cols (h ! input_ids) = 0")
      case True
      with assms(1) s have "rows (snd (right_shift s pad input_ids h) ! length h)
          = map butlast (rows (h ! input_ids))"
        by (simp add: right_shift_no_cols)
      with a obtain r e where "r \<in> set (map butlast (rows (h ! input_ids)))" "e \<in> set r"
        by auto
      with no_cols_no_values [OF assms(2) True] show ?thesis by fastforce
    next
      case False
      then have c: "0 < n_cols (h ! input_ids)" by simp
      show ?thesis
      proof (cases "int64 p")
        case False
        with a assms(1) s c show ?thesis by (simp add: right_shift_cols)
      next
        case p: True
        have st: "snd (right_shift s pad input_ids h) ! length h = filled s p (h ! input_ids)"
          using a assms(1) s c p by (simp add: right_shift_cols)
        have "\<not> all_ge_0 (filled s p (h ! input_ids))"
          using a unfolding st by (fastforce simp: all_ge_0_def list_all_iff not_le)
        with a assms(1) s c p show ?thesis by (simp add: right_shift_cols)
      qed
    qed
  qed
next
  fix out h'
  assume ret: "right_shift s pad input_ids h = (Inr out, h')"
  from right_shift_returns [OF assms(1) ret]
  obtain p where p: "all_ge_0 (filled s p (h ! input_ids))"
    "out = length h" "h' = h @ [filled s p (h ! input_ids)]"
    by blast
  have "h' ! out = filled s p (h ! input_ids)" using p by simp
  with p(1) show "\<forall>r \<in> set (rows (h' ! out)). \<forall>e \<in> set r. 0 \<le> e"
    by (simp add: all_ge_0_def list_all_iff)
qed

theorem right_shift_fatal_witness:
  "0 < length [\<lparr>n_cols = 3, rows = [[- 5, 6, 7]]\<rparr>]
   \<and> wf_tensor ([\<lparr>n_cols = 3, rows = [[- 5, 6, 7]]\<rparr>] ! 0)
   \<and> fst (right_shift 1 None 0 [\<lparr>n_cols = 3, rows = [[- 5, 6, 7]]\<rparr>])
       = Inl (AssertionError pad_undefined)
   \<and> fst (right_shift (2 ^ 63) None 0 [\<lparr>n_cols = 3, rows = [[- 5, 6, 7]]\<rparr>]) = Inl Overflow
   \<and> (\<exists>r \<in> set (rows (snd (right_shift 1 (Some 0) 0 [\<lparr>n_cols = 3, rows = [[- 5, 6, 7]]\<rparr>]) ! 1)).
         \<exists>e \<in> set r. e < 0)
   \<and> fst (right_shift 1 (Some 0) 0 [\<lparr>n_cols = 3, rows = [[- 5, 6, 7]]\<rparr>])
       = Inl (AssertionError not_positive)"
proof -
  let ?h = "[\<lparr>n_cols = 3, rows = [[- 5, 6, 7]]\<rparr>]"
  have a: "0 < length ?h" by simp
  have w: "wf_tensor (?h ! 0)" by (simp add: wf_tensor_def int64_def)
  have n: "fst (right_shift 1 None 0 ?h) = Inl (AssertionError pad_undefined)"
    using right_shift_fatal [OF a w, of None 1] by (simp add: int64_def)
  have o: "fst (right_shift (2 ^ 63) None 0 ?h) = Inl Overflow"
    using right_shift_fatal [OF a w, of None "2 ^ 63"] by (simp add: int64_def)
  have neg: "\<exists>r \<in> set (rows (snd (right_shift 1 (Some 0) 0 ?h) ! 1)). \<exists>e \<in> set r. e < 0"
    by (simp add: right_shift_cols filled_def int64_def)
  have "fst (right_shift 1 (Some 0) 0 ?h) = Inl (AssertionError not_positive)"
    using right_shift_fatal [OF a w, of "Some 0" 1] neg by (simp add: int64_def)
  with a w n o neg show ?thesis by blast
qed

text \<open>
  The claim as stated has an assertion fail whenever the pad id is absent; on a grid
  of shape \<open>(1, 0)\<close> the call raises \<open>IndexError\<close> before it reaches the assertion.
\<close>

theorem right_shift_fatal_counterexample:
  "fst (right_shift 1 None 0 [\<lparr>n_cols = 0, rows = [[]]\<rparr>]) = Inl IndexError"
  by (simp add: right_shift_no_cols int64_def)

text \<open>
  C10. \<^verbatim>\<open>right_shift\<close> never writes to its argument: whatever the call does (return or
  raise), the tensor at the address \<open>input_ids\<close> is the same after as before, and so
  is every tensor the store held before the call; the writes go to the tensor the call
  has allocated.
\<close>

theorem right_shift_keeps_input:
  assumes "input_ids < length h"
  shows "snd (right_shift s pad input_ids h) ! input_ids = h ! input_ids
       \<and> take (length h) (snd (right_shift s pad input_ids h)) = h"
proof (cases "int64 s")
  case False
  with assms show ?thesis by (simp add: right_shift_overflow nth_append)
next
  case s: True
  show ?thesis
  proof (cases "n_cols (h ! input_ids) = 0")
    case True
    with assms s show ?thesis by (simp add: right_shift_no_cols nth_append)
  next
    case False
    then have "0 < n_cols (h ! input_ids)" by simp
    with assms s show ?thesis
      by (simp add: right_shift_cols nth_append split: option.split)
  qed
qed

theorem right_shift_keeps_input_witness:
  "0 < length [\<lparr>n_cols = 3, rows = [[5, 6, 7]]\<rparr>]
   \<and> snd (right_shift 1 (Some 0) 0 [\<lparr>n_cols = 3, rows = [[5, 6, 7]]\<rparr>]) ! 0
       = \<lparr>n_cols = 3, rows = [[5, 6, 7]]\<rparr>"
proof -
  let ?h = "[\<lparr>n_cols = 3, rows = [[5, 6, 7]]\<rparr>]"
  have a: "0 < length ?h" by simp
  from right_shift_keeps_input [OF a, of 1 "Some 0"]
  have "snd (right_shift 1 (Some 0) 0 ?h) ! 0 = ?h ! 0" by blast
  with a show ?thesis by simp
qed

section \<open>Properties of \<^verbatim>\<open>extend_vocabulary\<close>\<close>

lemma dropWhile_all: "(\<forall>x \<in> set (dropWhile P xs). P x) = (\<forall>x \<in> set xs. P x)"
  by (induction xs) auto

lemma strip_empty: "(strip l = []) = list_all is_space l"
  by (simp add: strip_def dropWhile_eq_Nil_conv dropWhile_all list_all_iff)

lemma nonempty_tokens:
  "filter (\<lambda>w. w \<noteq> []) (map strip ls) = map strip (filter (\<lambda>l. \<not> list_all is_space l) ls)"
  by (induction ls) (simp_all add: strip_empty)

text \<open>
  C9, as amended. \<^verbatim>\<open>extend_vocabulary\<close> raises \<open>ValueError\<close> (the error the specification
  calls \<open>InvalidInputError\<close>) when the suffix of the path is not \<^verbatim>\<open>.txt\<close> or the file does
  not exist. Otherwise it makes one \<^verbatim>\<open>add_tokens\<close> call, and the non-empty tokens of
  its argument are, in the order of the file, the lines that hold a character other
  than whitespace, each stripped of its leading and trailing whitespace.
\<close>

theorem extend_vocabulary_contract:
  "(suffix fname \<noteq> ''.txt'' \<or> content fname = None \<longrightarrow>
      extend_vocabulary tk fname = (Inl ValueError, tk))
   \<and> (\<forall>txt. suffix fname = ''.txt'' \<and> content fname = Some txt \<longrightarrow>
        (\<exists>vocab. extend_vocabulary tk fname =
                    (Inr (), tk\<lparr>add_tokens_calls := add_tokens_calls tk @ [vocab]\<rparr>)
           \<and> filter (\<lambda>w. w \<noteq> []) vocab =
               map strip (filter (\<lambda>l. \<not> list_all is_space l) (readlines txt))))"
  by (auto simp: extend_vocabulary_def nonempty_tokens)


theorem extend_vocabulary_contract_witness:
  "extend_vocabulary \<lparr>add_tokens_calls = []\<rparr> \<lparr>suffix = ''.json'', content = Some ''a''\<rparr>
     = (Inl ValueError, \<lparr>add_tokens_calls = []\<rparr>)
   \<and> (\<exists>vocab. extend_vocabulary \<lparr>add_tokens_calls = []\<rparr>
                 \<lparr>suffix = ''.txt'', content = Some [CHR '' '', CHR ''a'', CHR 0x0A, CHR ''b'']\<rparr>
               = (Inr (), \<lparr>add_tokens_calls = [vocab]\<rparr>)
        \<and> filter (\<lambda>w. w \<noteq> []) vocab = [''a'', ''b''])"
proof -
  let ?tk = "\<lparr>add_tokens_calls = []\<rparr>"
  let ?txt = "[CHR '' '', CHR ''a'', CHR 0x0A, CHR ''b'']"
  have 1: "extend_vocabulary ?tk \<lparr>suffix = ''.json'', content = Some ''a''\<rparr> = (Inl ValueError, ?tk)"
    using extend_vocabulary_contract [of "\<lparr>suffix = ''.json'', content = Some ''a''\<rparr>" ?tk]
    by simp
  have ls: "map strip (filter (\<lambda>l. \<not> list_all is_space l) (readlines ?txt)) = [''a'', ''b'']"
    by (simp add: strip_def is_space_def)
  have "suffix \<lparr>suffix = ''.txt'', content = Some ?txt\<rparr> = ''.txt''
      \<and> content \<lparr>suffix = ''.txt'', content = Some ?txt\<rparr> = Some ?txt"
    by simp
  with extend_vocabulary_contract [of "\<lparr>suffix = ''.txt'', content = Some ?txt\<rparr>" ?tk]
  obtain vocab where v: "extend_vocabulary ?tk \<lparr>suffix = ''.txt'', content = Some ?txt\<rparr>
        = (Inr (), ?tk\<lparr>add_tokens_calls := add_tokens_calls ?tk @ [vocab]\<rparr>)"
      "filter (\<lambda>w. w \<noteq> []) vocab =
         map strip (filter (\<lambda>l. \<not> list_all is_space l) (readlines ?txt))"
    by blast
  from v(1) have "extend_vocabulary ?tk \<lparr>suffix = ''.txt'', content = Some ?txt\<rparr>
        = (Inr (), \<lparr>add_tokens_calls = [vocab]\<rparr>)" by simp
  moreover from v(2) ls have "filter (\<lambda>w. w \<noteq> []) vocab = [''a'', ''b'']" by simp
  ultimately have "\<exists>vocab. extend_vocabulary ?tk \<lparr>suffix = ''.txt'', content = Some ?txt\<rparr>
               = (Inr (), \<lparr>add_tokens_calls = [vocab]\<rparr>)
        \<and> filter (\<lambda>w. w \<noteq> []) vocab = [''a'', ''b'']"
    by blast
  with 1 show ?thesis by blast
qed

text \<open>
  The claim as stated has exactly the non-empty lines passed on. For the text of the
  lines \<open>a\<close>, an empty line and \<open> b\<close>, the argument of \<^verbatim>\<open>add_tokens\<close> holds an empty
  token for the empty line, and \<open>b\<close> where the line is \<open> b\<close>.
\<close>

theorem extend_vocabulary_contract_counterexample:
  "extend_vocabulary \<lparr>add_tokens_calls = []\<rparr>
      \<lparr>suffix = ''.txt'', content = Some [CHR ''a'', CHR 0x0A, CHR 0x0A, CHR '' '', CHR ''b'', CHR 0x0A]\<rparr>
     = (Inr (), \<lparr>add_tokens_calls = [[''a'', '''', ''b'']]\<rparr>)"
  by (simp add: extend_vocabulary_def strip_def is_space_def)


section \<open>Properties of \<^verbatim>\<open>load_seq2seq_data\<close>\<close>

lemma preprocess_masked:
  assumes "pad_to_max_length args" "ignore_pad_for_loss args"
    and "tokenize tk True (target exs) MaxLength (max_tgt_length args) ''input_ids'' = Some ids"
  shows "preprocess tk args exs =
      Inr ((tokenize tk False (map (\<lambda>i. prefix args @ i) (source exs)) MaxLength
              (max_src_length args))
            (''labels'' \<mapsto> map (map (\<lambda>l. if Some l = pad_token_id tk then - 100 else l)) ids))"
proof -
  have eq: "(\<lambda>l. if Some l \<noteq> pad_token_id tk then l else - 100)
      = (\<lambda>l. if Some l = pad_token_id tk then - 100 else l)"
    by auto
  show ?thesis using assms by (simp add: preprocess_def Let_def eq)
qed

text \<open>
  C4. With \<open>pad_to_max_length\<close> and \<open>ignore_pad_for_loss\<close> both true, \<^verbatim>\<open>preprocess\<close>
  returns the encoding of the sources with a \<^verbatim>\<open>labels\<close> field of the shape of the
  tokenized targets, in which every position whose token id is the pad id of the
  tokenizer holds \<open>-100\<close> and every other position holds the token id. Target tokens
  \<open>[3,4,0,0]\<close> with pad id 0 give the labels \<open>[3,4,-100,-100]\<close>.
\<close>

theorem preprocess_masks_pad_labels:
  assumes "pad_to_max_length args" and "ignore_pad_for_loss args"
    and "tokenize tk True (target exs) MaxLength (max_tgt_length args) ''input_ids'' = Some ids"
  shows "(\<exists>b labels. preprocess tk args exs = Inr b \<and> b ''labels'' = Some labels
            \<and> length labels = length ids
            \<and> (\<forall>i < length ids. length (labels ! i) = length (ids ! i)
                 \<and> (\<forall>j < length (ids ! i).
                       labels ! i ! j =
                         (if Some (ids ! i ! j) = pad_token_id tk then - 100 else ids ! i ! j))))
       \<and> preprocess
           \<lparr>pad_token_id = Some 0,
            tokenize = (\<lambda>tgt texts pad n.
               if tgt then [''input_ids'' \<mapsto> [[3, 4, 0, 0]]] else [''input_ids'' \<mapsto> [[7, 8, 0]]])\<rparr>
           \<lparr>max_src_length = 3, max_tgt_length = 4, pad_to_max_length = True, max_samples = - 1,
            ignore_pad_for_loss = True, prefix = []\<rparr>
           \<lparr>source = [''s''], target = [''t'']\<rparr>
         = Inr [''input_ids'' \<mapsto> [[7, 8, 0]], ''labels'' \<mapsto> [[3, 4, - 100, - 100]]]"
proof (intro conjI)
  let ?labels = "map (map (\<lambda>l. if Some l = pad_token_id tk then - 100 else l)) ids"
  let ?b = "(tokenize tk False (map (\<lambda>i. prefix args @ i) (source exs)) MaxLength
              (max_src_length args))(''labels'' \<mapsto> ?labels)"
  have 1: "preprocess tk args exs = Inr ?b" by (rule preprocess_masked [OF assms])
  have 2: "?b ''labels'' = Some ?labels" by simp
  have 3: "length ?labels = length ids" by simp
  have 4: "\<forall>i < length ids. length (?labels ! i) = length (ids ! i)
                 \<and> (\<forall>j < length (ids ! i).
                       ?labels ! i ! j =
                         (if Some (ids ! i ! j) = pad_token_id tk then - 100 else ids ! i ! j))"
    by simp
  from 1 2 3 4
  show "\<exists>b labels. preprocess tk args exs = Inr b \<and> b ''labels'' = Some labels
            \<and> length labels = length ids
            \<and> (\<forall>i < length ids. length (labels ! i) = length (ids ! i)
                 \<and> (\<forall>j < length (ids ! i).
                       labels ! i ! j =
                         (if Some (ids ! i ! j) = pad_token_id tk then - 100 else ids ! i ! j)))"
    by blast
next
  show "preprocess
           \<lparr>pad_token_id = Some 0,
            tokenize = (\<lambda>tgt texts pad n.
               if tgt then [''input_ids'' \<mapsto> [[3, 4, 0, 0]]] else [''input_ids'' \<mapsto> [[7, 8, 0]]])\<rparr>
           \<lparr>max_src_length = 3, max_tgt_length = 4, pad_to_max_length = True, max_samples = - 1,
            ignore_pad_for_loss = True, prefix = []\<rparr>
           \<lparr>source = [''s''], target = [''t'']\<rparr>
         = Inr [''input_ids'' \<mapsto> [[7, 8, 0]], ''labels'' \<mapsto> [[3, 4, - 100, - 100]]]"
    by (simp add: preprocess_def)
qed


theorem preprocess_masks_pad_labels_witness:
  "pad_to_max_length \<lparr>max_src_length = 3, max_tgt_length = 4, pad_to_max_length = True,
       max_samples = - 1, ignore_pad_for_loss = True, prefix = []\<rparr>
   \<and> ignore_pad_for_loss \<lparr>max_src_length = 3, max_tgt_length = 4, pad_to_max_length = True,
       max_samples = - 1, ignore_pad_for_loss = True, prefix = []\<rparr>
   \<and> (\<exists>b labels.
        preprocess
          \<lparr>pad_token_id = Some 0,
           tokenize = (\<lambda>tgt texts pad n.
              if tgt then [''input_ids'' \<mapsto> [[3, 4, 0, 0]]] else [''input_ids'' \<mapsto> [[7, 8, 0]]])\<rparr>
          \<lparr>max_src_length = 3, max_tgt_length = 4, pad_to_max_length = True, max_samples = - 1,
           ignore_pad_for_loss = True, prefix = []\<rparr>
          \<lparr>source = [''s''], target = [''t'']\<rparr> = Inr b
        \<and> b ''labels'' = Some labels \<and> labels ! 0 ! 0 = 3 \<and> labels ! 0 ! 2 = - 100)"
proof -
  let ?tk = "\<lparr>pad_token_id = Some 0,
           tokenize = (\<lambda>tgt texts pad n.
              if tgt then [''input_ids'' \<mapsto> [[3, 4, 0, 0]]] else [''input_ids'' \<mapsto> [[7, 8, 0 :: int]]])\<rparr>"
  let ?args = "\<lparr>max_src_length = 3, max_tgt_length = 4, pad_to_max_length = True,
       max_samples = - 1, ignore_pad_for_loss = True, prefix = []\<rparr>"
  let ?exs = "\<lparr>source = [''s''], target = [''t'']\<rparr>"
  let ?ids = "[[3, 4, 0, 0 :: int]]"
  have p: "pad_to_max_length ?args" by simp
  have i: "ignore_pad_for_loss ?args" by simp
  have t: "tokenize ?tk True (target ?exs) MaxLength (max_tgt_length ?args) ''input_ids'' = Some ?ids"
    by simp
  from preprocess_masks_pad_labels [OF p i t]
  obtain b labels where b: "preprocess ?tk ?args ?exs = Inr b" "b ''labels'' = Some labels"
    and v: "\<forall>i < length ?ids. length (labels ! i) = length (?ids ! i)
                 \<and> (\<forall>j < length (?ids ! i).
                       labels ! i ! j =
                         (if Some (?ids ! i ! j) = pad_token_id ?tk then - 100 else ?ids ! i ! j))"
    by blast
  from v have r: "\<forall>j < 4. labels ! 0 ! j =
      (if Some (?ids ! 0 ! j) = pad_token_id ?tk then - 100 else ?ids ! 0 ! j)"
    by simp
  from r have "labels ! 0 ! 0 = 3" by simp
  moreover from r have "labels ! 0 ! 2 = (if Some (?ids ! 0 ! 2) = pad_token_id ?tk then - 100 else ?ids ! 0 ! 2)"
    by (simp del: nth_Cons_numeral)
  then have "labels ! 0 ! 2 = - 100" by simp
  ultimately show ?thesis using p i b by blast
qed

text \<open>
  C5. The statement of \<^verbatim>\<open>load_seq2seq_data\<close> that selects the collator builds none
  when \<open>pad_to_max_length\<close> is false: it raises \<open>NameError\<close> at the name \<^verbatim>\<open>model\<close>, for
  every value of \<open>ignore_pad_for_loss\<close> and before the label pad id is computed.
\<close>

theorem collator_statement_raises:
  "collator_statement tk args =
     (if pad_to_max_length args then Inr default_data_collator
      else Inl (NameError ''model''))"
  by (simp add: collator_statement_def model_name_def)

section \<open>Properties of the training agent\<close>

lemma first_step:
  "train_step ag (inputs, mask_t, targets) None train_loss evs =
     (if gpu ag \<noteq> None \<and> device ag = ''cuda'' then (Inl (AttributeError ''gpu''), evs)
      else (Inl (UnboundLocalError ''input_mask''), evs @ [ZeroGrad]))"
  by (simp add: train_step_def self_train_gpu_def)

lemma first_loop:
  "train_loop ag (batch # batches) None train_loss evs =
     (if gpu ag \<noteq> None \<and> device ag = ''cuda'' then (Inl (AttributeError ''gpu''), evs)
      else (Inl (UnboundLocalError ''input_mask''), evs @ [ZeroGrad]))"
  by (cases batch) (simp add: first_step)

lemma epoch_iteration_cases:
  "epoch_iteration ag trial epoch evs =
     (case train_loader ag of
        [] \<Rightarrow> (Inr 0, evs @ [ModelTrain])
      | batch # batches \<Rightarrow>
          if gpu ag \<noteq> None \<and> device ag = ''cuda''
          then (Inl (AttributeError ''gpu''), evs @ [ModelTrain])
          else (Inl (UnboundLocalError ''input_mask''), evs @ [ModelTrain, ZeroGrad]))"
  by (cases "train_loader ag") (simp_all add: epoch_iteration_def first_loop del: train_loop.simps(2))

lemma validate_raises:
  "validate ag epoch evs =
     (if val_loader ag = [] then (Inr 0, evs @ [ModelEval])
      else (Inl (AttributeError ''gpu''), evs @ [ModelEval]))"
  by (cases "val_loader ag") (auto simp: validate_def validate_step_def self_gpu_def)


text \<open>
  C8. The first iteration of the loop of \<^verbatim>\<open>epoch_iteration\<close> (\<^verbatim>\<open>input_mask\<close> unbound)
  never reaches the model call: it raises \<open>AttributeError\<close> before \<^verbatim>\<open>zero_grad\<close> when the
  batch is to be moved to the device, and \<open>UnboundLocalError\<close> right after \<^verbatim>\<open>zero_grad\<close>
  otherwise.
\<close>

theorem train_step_never_completes:
  "train_step ag (inputs, mask_t, targets) None train_loss evs =
     (if gpu ag \<noteq> None \<and> device ag = ''cuda'' then (Inl (AttributeError ''gpu''), evs)
      else (Inl (UnboundLocalError ''input_mask''), evs @ [ZeroGrad]))"
  by (rule first_step)

text \<open>
  C7. \<^verbatim>\<open>epoch_iteration\<close> returns a loss only when the training loader yields no
  batch, and the loss is then 0; with a batch it raises in its first iteration.
\<close>

theorem epoch_iteration_raises:
  "epoch_iteration ag trial epoch evs =
     (if train_loader ag = [] then (Inr 0, evs @ [ModelTrain])
      else if gpu ag \<noteq> None \<and> device ag = ''cuda''
      then (Inl (AttributeError ''gpu''), evs @ [ModelTrain])
      else (Inl (UnboundLocalError ''input_mask''), evs @ [ModelTrain, ZeroGrad]))"
  by (simp add: epoch_iteration_cases split: list.split)

text \<open>
  C6. \<^verbatim>\<open>run_epochs\<close> raises in its first epoch: in \<^verbatim>\<open>epoch_iteration\<close> when the training
  loader yields a batch, and at the lookup of \<^verbatim>\<open>self.evaluate\<close> when it yields none. No
  validation pass runs and nothing is reported.
\<close>

theorem run_epochs_raises:
  "run_epochs ag trial (epoch # epochs) evs =
     (if train_loader ag = []
      then (Inl (AttributeError ''evaluate''), evs @ [Time, ModelTrain, Time])
      else if gpu ag \<noteq> None \<and> device ag = ''cuda''
      then (Inl (AttributeError ''gpu''), evs @ [Time, ModelTrain])
      else (Inl (UnboundLocalError ''input_mask''), evs @ [Time, ModelTrain, ZeroGrad]))"
  by (simp add: epoch_iteration_cases self_evaluate_def split: list.split)


end
